theory Spec2Isabelle
  imports Main
begin

section \<open>Python and numpy primitives used by \<^verbatim>\<open>pyansys/archive.py\<close>\<close>

text \<open>
  Exceptions of the source are values. The three \<^verbatim>\<open>Exception(...)\<close> messages raised under
  \<^verbatim>\<open>allow_missing=False\<close> and the one raised for an unwritable cell get a constructor
  each; the others are the built-in exception classes.
\<close>

datatype error =
    IndexError
  | KeyError
  | TypeError
  | ValueError
  | UnboundLocalError
  | Missing_node_numbers
  | Missing_elem_numbers
  | Invalid_or_missing_etype
  | Invalid_write_cell_type int

text \<open>Sequencing of fallible steps: the first raise ends the computation.\<close>

definition ebind :: "error + 'a \<Rightarrow> ('a \<Rightarrow> error + 'b) \<Rightarrow> error + 'b" where
  "ebind m f = (case m of Inl e \<Rightarrow> Inl e | Inr v \<Rightarrow> f v)"

text \<open>
  \<^verbatim>\<open>a[i]\<close> on a Python sequence or a one-dimensional numpy array: a negative index
  counts from the end, anything out of range raises IndexError.
\<close>

definition py_get :: "'a list \<Rightarrow> int \<Rightarrow> error + 'a" where
  "py_get xs i =
     (if 0 \<le> i \<and> i < int (length xs) then Inr (xs ! nat i)
      else if i < 0 \<and> - int (length xs) \<le> i then Inr (xs ! nat (int (length xs) + i))
      else Inl IndexError)"

text \<open>
  The same index arithmetic as a total function, for the places where the source's loop
  bounds keep the index in range (\<open>np_at_py_get\<close> below relates the two).
\<close>

definition np_at :: "'a list \<Rightarrow> int \<Rightarrow> 'a" where
  "np_at xs i = xs ! nat (if i < 0 then int (length xs) + i else i)"

text \<open>\<^verbatim>\<open>np.unique(items)\<close>: the sorted distinct values.\<close>

definition np_unique :: "'a::linorder list \<Rightarrow> 'a list" where
  "np_unique xs = remdups_adj (sort xs)"

text \<open>
  The integers of a numpy array have a fixed width and a signedness, the array's dtype
  (\<open>Signed 64\<close> is \<^verbatim>\<open>int64\<close>, \<open>Unsigned 32\<close> is \<^verbatim>\<open>uint32\<close>). The values held by an array lie
  in the range of its dtype, and a result of arithmetic on them that leaves the range wraps
  around: \<open>wrap dt v\<close> is the value stored for the exact result \<open>v\<close>. numpy turns a Python
  list of integers that all fit into an \<^verbatim>\<open>int64\<close> array, and a list of non-negative
  integers with one of 2^63 or more into a \<^verbatim>\<open>uint64\<close> array.
\<close>

datatype dtype = Signed nat | Unsigned nat

definition wrap :: "dtype \<Rightarrow> int \<Rightarrow> int" where
  "wrap dt v =
     (case dt of Signed w \<Rightarrow> signed_take_bit (w - 1) v | Unsigned w \<Rightarrow> take_bit w v)"

text \<open>
  \<^verbatim>\<open>np.diff(items)\<close>: \<^verbatim>\<open>items[k+1] - items[k]\<close> for every k below \<^verbatim>\<open>len(items) - 1\<close>, in
  the dtype of \<^verbatim>\<open>items\<close>.
\<close>

definition np_diff :: "dtype \<Rightarrow> int list \<Rightarrow> int list" where
  "np_diff dt xs = map (\<lambda>k. wrap dt (xs ! Suc k - xs ! k)) [0..<length xs - 1]"

subsection \<open>Printf-style integer formatting\<close>

definition digit_char :: "nat \<Rightarrow> char" where
  "digit_char d = char_of (48 + d)"

fun dec_nat :: "nat \<Rightarrow> string" where
  "dec_nat n = (if n < 10 then [digit_char n] else dec_nat (n div 10) @ [digit_char (n mod 10)])"

declare dec_nat.simps [simp del]

text \<open>\<^verbatim>\<open>'%d' % v\<close>\<close>

definition str_int :: "int \<Rightarrow> string" where
  "str_int v = (if v < 0 then CHR ''-'' # dec_nat (nat (- v)) else dec_nat (nat v))"

text \<open>
  \<^verbatim>\<open>('%' + '%d' % w + 'd') % v\<close>, that is \<^verbatim>\<open>'%<w>d' % v\<close>: the decimal text padded with
  blanks on the left up to \<open>w\<close> characters, never truncated; a negative \<open>w\<close> is printf's
  \<^verbatim>\<open>-\<close> flag and pads on the right.
\<close>

definition pct_d :: "int \<Rightarrow> int \<Rightarrow> string" where
  "pct_d w v =
     (let s = str_int v; pad = replicate (nat (abs w) - length s) CHR '' ''
      in if w < 0 then s @ pad else pad @ s)"

text \<open>\<^verbatim>\<open>s.upper()\<close> on ASCII text.\<close>

definition upper_char :: "char \<Rightarrow> char" where
  "upper_char c =
     (let n = (of_char c :: nat) in if 97 \<le> n \<and> n \<le> 122 then char_of (n - 32) else c)"

definition upper :: "string \<Rightarrow> string" where
  "upper s = map upper_char s"

text \<open>\<^verbatim>\<open>chunks(l, n)\<close>: successive slices \<^verbatim>\<open>l[i:i + n]\<close> for \<^verbatim>\<open>i\<close> in \<^verbatim>\<open>range(0, len(l), n)\<close>.\<close>

definition chunks :: "'a list \<Rightarrow> nat \<Rightarrow> 'a list list" where
  "chunks l n = map (\<lambda>k. take n (drop (k * n) l)) [0..<(length l + n - 1) div n]"

text \<open>\<^verbatim>\<open>sep.join(lines)\<close>\<close>

fun join :: "string \<Rightarrow> string list \<Rightarrow> string" where
  "join sep [] = []"
| "join sep [l] = l"
| "join sep (l # ls) = l @ sep @ join sep ls"

section \<open>\<^verbatim>\<open>write_cmblock\<close>: the component block\<close>

text \<open>
  One pass of the body of \<^verbatim>\<open>for i, value in enumerate(np.diff(items))\<close>. The index
  \<^verbatim>\<open>i - 1\<close> is \<open>-1\<close> in the first pass, which numpy reads as the last item. The items read
  from the array are numpy integers of its dtype \<open>dt\<close>: \<^verbatim>\<open>items[i - 1] + 1\<close> and
  \<^verbatim>\<open>-items[i]\<close> stay in that dtype and wrap around.
\<close>

definition cm_step :: "dtype \<Rightarrow> int list \<Rightarrow> nat \<times> int \<Rightarrow> int list \<Rightarrow> int list" where
  "cm_step dt items iv toprint =
     (case iv of (i, v) \<Rightarrow>
        if v = 1 then toprint
        else if wrap dt (np_at items (int i - 1) + 1) = np_at items (int i)
             then toprint @ [wrap dt (- np_at items (int i)), np_at items (int i + 1)]
             else toprint @ [np_at items (int i + 1)])"

text \<open>
  The token list \<^verbatim>\<open>toprint\<close>, for the ids given as the contents of an integer array of
  dtype \<open>dt\<close>. \<^verbatim>\<open>items[0]\<close> raises IndexError on an empty array. The closing step reads
  the loop variable \<^verbatim>\<open>i\<close> after the loop: when the loop body never ran (one item),
  \<^verbatim>\<open>i\<close> is unbound. \<^verbatim>\<open>abs(items[-1])\<close> and \<^verbatim>\<open>-items[i + 1]\<close> are in the dtype as well.
\<close>

definition cmblock_toprint :: "dtype \<Rightarrow> int list \<Rightarrow> error + int list" where
  "cmblock_toprint dt items0 =
     (let items = np_unique items0 in
      ebind (py_get items 0) (\<lambda>first.
        let toprint = fold (cm_step dt items) (enumerate 0 (np_diff dt items)) [first] in
        if last toprint \<noteq> wrap dt (abs (np_at items (- 1)))
        then (if length items < 2 then Inl UnboundLocalError
              else Inr (toprint @ [wrap dt (- np_at items (int (length items - 2) + 1))]))
        else Inr toprint))"

definition write_cmblock ::
  "dtype \<Rightarrow> int list \<Rightarrow> string \<Rightarrow> string \<Rightarrow> int \<Rightarrow> error + string" where
  "write_cmblock dt items comp_name comp_type digit_width =
     (if upper comp_type \<notin> set [''ELEMENT'', ''NODE''] then Inl ValueError
      else ebind (cmblock_toprint dt items) (\<lambda>toprint.
        let nitems = int (length toprint);
            lines = [''CMBLOCK,'' @ upper comp_name @ '','' @ upper comp_type @ '',''
                       @ pct_d 8 nitems @ ''  ! from pyansys'',
                     ''(8i'' @ str_int digit_width @ '')'']
                    @ map (\<lambda>chunk. concat (map (pct_d digit_width) chunk)) (chunks toprint 8)
                    @ ['''']
        in Inr (join [CHR 0x0A] lines)))"




section \<open>Array operations of numpy\<close>

definition nl :: string where
  "nl = [CHR 0x0A]"

text \<open>\<^verbatim>\<open>np.arange(a, b)\<close>\<close>

definition arange :: "int \<Rightarrow> int \<Rightarrow> int list" where
  "arange a b = [a .. b - 1]"

text \<open>
  \<^verbatim>\<open>arr[mask] = values\<close> with a boolean mask: the k-th selected entry receives the k-th
  value. Every use in the source builds \<^verbatim>\<open>values\<close> with one entry per selected entry.
\<close>

fun assign_masked :: "'a list \<Rightarrow> bool list \<Rightarrow> 'a list \<Rightarrow> 'a list" where
  "assign_masked (x # xs) (True # ms) (v # vs) = v # assign_masked xs ms vs"
| "assign_masked (x # xs) (False # ms) vs = x # assign_masked xs ms vs"
| "assign_masked xs ms vs = xs"

text \<open>\<^verbatim>\<open>arr[mask] = v\<close> with a scalar \<open>v\<close>.\<close>

fun where_set :: "'a list \<Rightarrow> bool list \<Rightarrow> 'a \<Rightarrow> 'a list" where
  "where_set (x # xs) (m # ms) v = (if m then v else x) # where_set xs ms v"
| "where_set xs ms v = xs"

text \<open>\<^verbatim>\<open>arr[mask]\<close>: the selected entries.\<close>

definition select_mask :: "'a list \<Rightarrow> bool list \<Rightarrow> 'a list" where
  "select_mask xs ms = map fst (filter snd (zip xs ms))"

text \<open>\<^verbatim>\<open>arr == v\<close>, elementwise.\<close>

definition eq_mask :: "'a list \<Rightarrow> 'a \<Rightarrow> bool list" where
  "eq_mask xs v = map (\<lambda>x. x = v) xs"

text \<open>\<^verbatim>\<open>np.sum(mask)\<close>\<close>

definition count_true :: "bool list \<Rightarrow> nat" where
  "count_true ms = length (filter id ms)"

text \<open>\<^verbatim>\<open>arr[indices]\<close> with an integer index array: each index as in \<open>py_get\<close>.\<close>

fun py_take :: "'a list \<Rightarrow> int list \<Rightarrow> error + 'a list" where
  "py_take xs [] = Inr []"
| "py_take xs (i # is) =
     ebind (py_get xs i) (\<lambda>v. ebind (py_take xs is) (\<lambda>vs. Inr (v # vs)))"

text \<open>\<^verbatim>\<open>xs[a:b]\<close>: a negative bound counts from the end, and bounds are clipped.\<close>

definition slice_bound :: "nat \<Rightarrow> int \<Rightarrow> nat" where
  "slice_bound n i = (if i < 0 then nat (int n + i) else min (nat i) n)"

definition py_slice :: "'a list \<Rightarrow> int \<Rightarrow> int \<Rightarrow> 'a list" where
  "py_slice xs a b =
     (let lo = slice_bound (length xs) a; hi = slice_bound (length xs) b
      in take (hi - lo) (drop lo xs))"

text \<open>The position of the first occurrence of a value.\<close>

primrec first_index :: "'a \<Rightarrow> 'a list \<Rightarrow> nat" where
  "first_index v [] = 0"
| "first_index v (x # xs) = (if x = v then 0 else Suc (first_index v xs))"

text \<open>
  \<^verbatim>\<open>np.unique(a, return_index=True)[1]\<close>: for each distinct value in ascending order, the
  index of its first occurrence.
\<close>

definition unique_index :: "'a::linorder list \<Rightarrow> nat list" where
  "unique_index a = map (\<lambda>v. first_index v a) (np_unique a)"

text \<open>
  \<^verbatim>\<open>np.argsort(a)\<close>. numpy leaves the order of equal keys open; the model keeps them in
  input order.
\<close>

definition np_argsort :: "int list \<Rightarrow> nat list" where
  "np_argsort a = sort_key (\<lambda>k. a ! k) [0..<length a]"

text \<open>
  \<^verbatim>\<open>'%8d%8d...' % tuple(vals)\<close> with \<open>n\<close> conversions: a tuple of another length is a
  TypeError.
\<close>

definition fmt_8d :: "nat \<Rightarrow> int list \<Rightarrow> error + string" where
  "fmt_8d n vals = (if length vals = n then Inr (concat (map (pct_d 8) vals)) else Inl TypeError)"

text \<open>Running a fallible step over a list, stopping at the first raise.\<close>

fun emap :: "('a \<Rightarrow> error + 'b) \<Rightarrow> 'a list \<Rightarrow> error + 'b list" where
  "emap f [] = Inr []"
| "emap f (x # xs) = ebind (f x) (\<lambda>y. ebind (emap f xs) (\<lambda>ys. Inr (y # ys)))"

section \<open>\<^verbatim>\<open>write_nblock\<close>: the node block\<close>

text \<open>
  What is written to the file, in order. A coordinate row is a value of the type \<open>'p\<close>
  (three floats in the source; the asserts on \<^verbatim>\<open>pos.shape\<close> hold by typing). The text of a
  node line is left as the record it prints: \<open>Node_row n p\<close> is the line
  \<^verbatim>\<open>'%8d       0       0%20.13E%20.13E%20.13E'\<close> that shows the id \<open>n\<close> and the row \<open>p\<close>, and
  \<open>Node_row_angles n p a\<close> the line with the three angles of \<open>a\<close> after it.
\<close>

datatype 'p piece =
    Text string
  | Node_row int 'p
  | Node_row_angles int 'p 'p

text \<open>
  The node numbers reach \<^verbatim>\<open>np.savetxt\<close> in one floating-point array with the coordinates
  (\<^verbatim>\<open>np.hstack\<close>, or \<^verbatim>\<open>arr[:, 0] = node_id\<close>), and \<^verbatim>\<open>%8d\<close> prints the integer value of
  the float. \<open>float64_int v\<close> is that value for an integer \<open>v\<close> of a numpy integer array:
  the nearest integer with at most 53 significant bits, the even one of two nearest. Up to
  2^53 it is \<open>v\<close> itself.
\<close>

fun bit_length :: "nat \<Rightarrow> nat" where
  "bit_length n = (if n = 0 then 0 else Suc (bit_length (n div 2)))"

declare bit_length.simps [simp del]

definition float64_int :: "int \<Rightarrow> int" where
  "float64_int v =
     (let a = nat (abs v);
          e = bit_length a - 53;
          q = a div 2 ^ e;
          r = a mod 2 ^ e;
          q' = (if 2 ^ e < 2 * r \<or> (2 * r = 2 ^ e \<and> odd q) then q + 1 else q)
      in sgn v * int (q' * 2 ^ e))"

text \<open>\<^verbatim>\<open>arr[:, 4:] = angles\<close>: the rows must be as many as the rows of \<^verbatim>\<open>arr\<close>, or one.\<close>

definition broadcast_rows :: "nat \<Rightarrow> 'p list \<Rightarrow> error + 'p list" where
  "broadcast_rows n rows =
     (if length rows = n then Inr rows
      else if length rows = 1 then Inr (replicate n (hd rows))
      else Inl ValueError)"

definition write_nblock :: "int list \<Rightarrow> 'p list \<Rightarrow> 'p list option \<Rightarrow> error + 'p piece list" where
  "write_nblock node_id0 pos0 angles =
     (if node_id0 = [] then Inl ValueError
      else
        let h = ''/PREP7 '' @ nl
                @ ''NBLOCK,6,SOLID,'' @ pct_d 10 (Max (set node_id0)) @ '',''
                @ pct_d 10 (int (length pos0)) @ nl
                @ ''(3i8,6e20.13)'';
            f = ''N,R5.3,LOC,       -1, '' @ nl;
            ind = np_argsort node_id0;
            node_id = map (\<lambda>k. node_id0 ! k) ind
        in ebind (py_take pos0 (map int ind)) (\<lambda>pos.
             case angles of
               None \<Rightarrow>
                 Inr ([Text (h @ nl)]
                      @ map2 (\<lambda>n p. Node_row (float64_int n) p) node_id pos
                      @ [Text (f @ nl)])
             | Some ang0 \<Rightarrow>
                 ebind (broadcast_rows (length node_id) ang0) (\<lambda>ang.
                   Inr ([Text (h @ nl)]
                        @ map2 (\<lambda>n (p, a). Node_row_angles (float64_int n) p a) node_id
                            (zip pos ang)
                        @ [Text (f @ nl)]))))"

section \<open>\<^verbatim>\<open>save_as_archive\<close>\<close>

text \<open>The cell type numbers of VTK.\<close>

definition VTK_TETRA :: int where "VTK_TETRA = 10"
definition VTK_HEXAHEDRON :: int where "VTK_HEXAHEDRON = 12"
definition VTK_WEDGE :: int where "VTK_WEDGE = 13"
definition VTK_PYRAMID :: int where "VTK_PYRAMID = 14"
definition VTK_QUADRATIC_TETRA :: int where "VTK_QUADRATIC_TETRA = 24"
definition VTK_QUADRATIC_HEXAHEDRON :: int where "VTK_QUADRATIC_HEXAHEDRON = 25"
definition VTK_QUADRATIC_WEDGE :: int where "VTK_QUADRATIC_WEDGE = 26"
definition VTK_QUADRATIC_PYRAMID :: int where "VTK_QUADRATIC_PYRAMID = 27"

definition supported_celltypes :: "int list" where
  "supported_celltypes =
     [VTK_TETRA, VTK_QUADRATIC_TETRA, VTK_PYRAMID, VTK_QUADRATIC_PYRAMID,
      VTK_WEDGE, VTK_QUADRATIC_WEDGE, VTK_HEXAHEDRON, VTK_QUADRATIC_HEXAHEDRON]"

text \<open>
  The grid as the function reads it: the point coordinates, the flat \<^verbatim>\<open>cells\<close> array with
  its \<^verbatim>\<open>offset\<close> array, the cell types, and the named integer arrays on points and on
  cells. pyvista stores a point array only with one entry per point and a cell array only
  with one entry per cell; the masked array operations below rely on it as numpy does.
\<close>

record 'p grid =
  points :: "'p list"
  cells :: "int list"
  offset :: "int list"
  celltypes :: "int list"
  point_arrays :: "string \<rightharpoonup> int list"
  cell_arrays :: "string \<rightharpoonup> int list"

definition number_of_points :: "'p grid \<Rightarrow> nat" where
  "number_of_points g = length (points g)"

definition number_of_cells :: "'p grid \<Rightarrow> nat" where
  "number_of_cells g = length (celltypes g)"

text \<open>The keyword arguments (the file name and the file mode are not part of the model).\<close>

record options =
  mtype_start :: int
  etype_start :: int
  real_constant_start :: int
  nblock :: bool
  enum_start :: int
  nnum_start :: int
  include_etype_header :: bool
  reset_etype :: bool
  allow_missing :: bool

text \<open>
  Truth value of a Python object in a condition. The condition of the node block is
  \<^verbatim>\<open>if write_nblock:\<close>, the module's function of that name; a function object is true.
\<close>

datatype py_value = PyBool bool | PyFunction string

fun truthy :: "py_value \<Rightarrow> bool" where
  "truthy (PyBool b) = b"
| "truthy (PyFunction name) = True"

text \<open>
  The node numbers: the point array when the grid has one, else 1..n; then the entries
  equal to -1 are numbered from \<^verbatim>\<open>max(nodenum.max() + 1, nnum_start)\<close>.
\<close>

definition node_numbers :: "'p grid \<Rightarrow> options \<Rightarrow> error + int list" where
  "node_numbers g opts =
     (let nodenum = (case point_arrays g ''ansys_node_num'' of
                       Some a \<Rightarrow> a
                     | None \<Rightarrow> arange 1 (int (number_of_points g) + 1))
      in if - 1 \<in> set nodenum then
           (if \<not> allow_missing opts then Inl Missing_node_numbers
            else let start_num0 = Max (set nodenum) + 1;
                     start_num = (if nnum_start opts > start_num0 then nnum_start opts
                                  else start_num0);
                     nadd = int (count_true (eq_mask nodenum (- 1)));
                     end_num = start_num + nadd
                 in Inr (assign_masked nodenum (eq_mask nodenum (- 1)) (arange start_num end_num)))
         else Inr nodenum)"

text \<open>
  The element numbers. Without the cell array the function raises under
  \<^verbatim>\<open>allow_missing=False\<close> (with the message of the node numbers) and else numbers 1..n.
\<close>

definition elem_numbers :: "'p grid \<Rightarrow> options \<Rightarrow> error + int list" where
  "elem_numbers g opts =
     ebind (case cell_arrays g ''ansys_elem_num'' of
              Some a \<Rightarrow> Inr a
            | None \<Rightarrow> if \<not> allow_missing opts then Inl Missing_node_numbers
                      else Inr (arange 1 (int (number_of_cells g) + 1)))
       (\<lambda>enum.
          if - 1 \<in> set enum then
            (if \<not> allow_missing opts then Inl Missing_elem_numbers
             else let start_num0 = Max (set enum) + 1;
                      start_num = (if enum_start opts > start_num0 then enum_start opts
                                   else start_num0);
                      nadd = int (count_true (eq_mask enum (- 1)));
                      end_num = start_num + nadd
                  in Inr (assign_masked enum (eq_mask enum (- 1)) (arange start_num end_num)))
          else Inr enum)"

text \<open>Material types and real constants: the cell array or 1..n, with -1 replaced.\<close>

definition material_types :: "'p grid \<Rightarrow> options \<Rightarrow> int list" where
  "material_types g opts =
     (let mtype = (case cell_arrays g ''ansys_material_type'' of
                     Some a \<Rightarrow> a
                   | None \<Rightarrow> arange 1 (int (number_of_cells g) + 1))
      in if - 1 \<in> set mtype then where_set mtype (eq_mask mtype (- 1)) (mtype_start opts)
         else mtype)"

definition real_constants :: "'p grid \<Rightarrow> options \<Rightarrow> int list" where
  "real_constants g opts =
     (let rcon = (case cell_arrays g ''ansys_real_constant'' of
                    Some a \<Rightarrow> a
                  | None \<Rightarrow> arange 1 (int (number_of_cells g) + 1))
      in if - 1 \<in> set rcon then where_set rcon (eq_mask rcon (- 1)) (real_constant_start opts)
         else rcon)"

text \<open>
  Arrays made by \<^verbatim>\<open>np.empty\<close> hold whatever the memory held. The model takes these
  contents as a parameter \<open>junk\<close>: \<open>junk a i\<close> is entry \<open>i\<close> of the a-th such array
  (0: \<^verbatim>\<open>etype\<close>, 1: \<^verbatim>\<open>typenum\<close>, 2: \<^verbatim>\<open>elem_nnodes\<close>). The three arrays are
  \<^verbatim>\<open>int32\<close> arrays, so each entry is read as a value of that dtype.
\<close>

definition np_empty :: "(nat \<Rightarrow> nat \<Rightarrow> int) \<Rightarrow> nat \<Rightarrow> nat \<Rightarrow> int list" where
  "np_empty junk a n = map (\<lambda>i. wrap (Signed 32) (junk a i)) [0..<n]"

text \<open>The \<^verbatim>\<open>ET, <etype>, <typenum>\<close> lines, one per distinct element type number.\<close>

definition et_header :: "int list \<Rightarrow> int list \<Rightarrow> error + string" where
  "et_header etype typenum =
     ebind (emap (\<lambda>idx. ebind (py_get typenum (int idx)) (\<lambda>t.
                     Inr (''ET, '' @ str_int (etype ! idx) @ '', '' @ str_int t @ nl)))
              (unique_index etype))
       (\<lambda>ls. Inr (concat ls))"

text \<open>
  The default element types by cell shape, used when the grid carries none or invalid
  ones: 185 for the linear shapes, 186 for the quadratic hexahedron, wedge and pyramid,
  187 for the quadratic tetrahedron. A cell of another shape keeps the uninitialised entry.
  The numbers are stored into the \<^verbatim>\<open>int32\<close> array \<^verbatim>\<open>etype\<close>, where a number outside
  the range of the dtype wraps around; the comparisons that fill \<^verbatim>\<open>typenum\<close> and the
  header lines use the numbers as computed.
\<close>

definition default_etype :: "(nat \<Rightarrow> nat \<Rightarrow> int) \<Rightarrow> int list \<Rightarrow> int \<Rightarrow> int list" where
  "default_etype junk ct start =
     (let etype0 = np_empty junk 0 (length ct);
          etype_185 = start + 2;
          etype1 = where_set etype0 (eq_mask ct VTK_TETRA) (wrap (Signed 32) etype_185);
          etype2 = where_set etype1 (eq_mask ct VTK_HEXAHEDRON) (wrap (Signed 32) etype_185);
          etype3 = where_set etype2 (eq_mask ct VTK_WEDGE) (wrap (Signed 32) etype_185);
          etype4 = where_set etype3 (eq_mask ct VTK_PYRAMID) (wrap (Signed 32) etype_185);
          etype_186 = start;
          etype5 = where_set etype4 (eq_mask ct VTK_QUADRATIC_HEXAHEDRON) (wrap (Signed 32) etype_186);
          etype6 = where_set etype5 (eq_mask ct VTK_QUADRATIC_WEDGE) (wrap (Signed 32) etype_186);
          etype7 = where_set etype6 (eq_mask ct VTK_QUADRATIC_PYRAMID) (wrap (Signed 32) etype_186);
          etype_187 = start + 1
      in where_set etype7 (eq_mask ct VTK_QUADRATIC_TETRA) (wrap (Signed 32) etype_187))"

definition default_typenum :: "(nat \<Rightarrow> nat \<Rightarrow> int) \<Rightarrow> int list \<Rightarrow> int \<Rightarrow> int list" where
  "default_typenum junk etype start =
     (let typenum0 = np_empty junk 1 (length etype);
          typenum1 = where_set typenum0 (eq_mask etype (start + 2)) 185;
          typenum2 = where_set typenum1 (eq_mask etype start) 186
      in where_set typenum2 (eq_mask etype (start + 1)) 187)"

text \<open>
  The element type block: the text added to the header, \<^verbatim>\<open>etype\<close> and \<^verbatim>\<open>typenum\<close>.
  Reading \<^verbatim>\<open>ansys_elem_type_num\<close> from a grid that has \<^verbatim>\<open>ansys_etype\<close> only is a
  KeyError.
\<close>

definition element_types ::
  "(nat \<Rightarrow> nat \<Rightarrow> int) \<Rightarrow> 'p grid \<Rightarrow> options \<Rightarrow> error + (string \<times> int list \<times> int list)" where
  "element_types junk g opts =
     ebind
       (case (if reset_etype opts then None else cell_arrays g ''ansys_etype'') of
          Some etype \<Rightarrow>
            (case cell_arrays g ''ansys_elem_type_num'' of
               None \<Rightarrow> Inl KeyError
             | Some typenum \<Rightarrow>
                 let invalid = (- 1 \<in> set etype) in
                 ebind (if include_etype_header opts \<and> \<not> invalid then et_header etype typenum
                        else Inr [])
                   (\<lambda>lines.
                      let mask = map (\<lambda>c. c < 20) (celltypes g);
                          invalid' = (if 186 \<in> set (select_mask typenum mask) then True
                                      else invalid)
                      in Inr (lines, etype, typenum, invalid', False)))
        | None \<Rightarrow> Inr ([], [], [], False, True))
       (\<lambda>(lines, etype, typenum, invalid, missing).
          if invalid \<or> missing then
            (if \<not> allow_missing opts then Inl Invalid_or_missing_etype
             else
               let start = etype_start opts;
                   etype' = default_etype junk (celltypes g) start;
                   typenum' = default_typenum junk etype' start
               in Inr (lines
                       @ ''ET, '' @ str_int (start + 2) @ '', 185'' @ nl
                       @ ''ET, '' @ str_int start @ '', 186'' @ nl
                       @ ''ET, '' @ str_int (start + 1) @ '', 187'' @ nl,
                       etype', typenum'))
          else Inr (lines, etype, typenum))"

text \<open>\<^verbatim>\<open>elem_nnodes\<close>: the number of nodes written per element, by element type.\<close>

definition nodes_per_element :: "(nat \<Rightarrow> nat \<Rightarrow> int) \<Rightarrow> int list \<Rightarrow> int list \<Rightarrow> int list" where
  "nodes_per_element junk etype typenum =
     (let elem_nnodes0 = np_empty junk 2 (length etype);
          elem_nnodes1 = where_set elem_nnodes0 (eq_mask typenum 185) 8;
          elem_nnodes2 = where_set elem_nnodes1 (eq_mask typenum 186) 20
      in where_set elem_nnodes2 (eq_mask typenum 187) 10)"

text \<open>
  The tuples \<^verbatim>\<open>writenodes\<close> of the source, as the positions of the compact node list that
  fill the archive slots in order.
\<close>

definition tetra_slots :: "int list" where
  "tetra_slots = [0, 1, 2, 2, 3, 3, 3, 3]"

definition quadratic_tetra_slots :: "int list" where
  "quadratic_tetra_slots = [0, 1, 2, 2, 3, 3, 3, 3, 4, 5, 3, 6, 3, 3, 3, 3, 7, 8, 9, 9]"

definition wedge_slots :: "int list" where
  "wedge_slots = [2, 1, 0, 0, 5, 4, 3, 3]"

definition quadratic_wedge_slots :: "int list" where
  "quadratic_wedge_slots = [2, 1, 0, 0, 5, 4, 3, 3, 7, 6, 0, 8, 10, 9, 3, 11, 14, 13, 12, 12]"

definition quadratic_pyramid_slots :: "int list" where
  "quadratic_pyramid_slots = [0, 1, 2, 3, 4, 4, 4, 4, 5, 6, 7, 8, 4, 4, 4, 4, 9, 10, 11, 12]"

definition pyramid_slots :: "int list" where
  "pyramid_slots = [0, 1, 2, 3, 4, 4, 4, 4]"

text \<open>A line of eight node numbers, and the two lines of eight and twelve.\<close>

definition one_line :: "int list \<Rightarrow> error + string" where
  "one_line w = ebind (fmt_8d 8 w) (\<lambda>s. Inr (s @ nl))"

definition two_lines :: "int list \<Rightarrow> int list \<Rightarrow> error + string" where
  "two_lines w8 w12 =
     ebind (fmt_8d 8 w8) (\<lambda>s1. ebind (fmt_8d 12 w12) (\<lambda>s2. Inr (s1 @ nl @ s2 @ nl)))"

text \<open>
  The node part of an element line, by cell type; \<open>tn\<close> is the read of \<^verbatim>\<open>typenum[i]\<close>,
  which only the quadratic tetrahedron makes. The last branch is the \<^verbatim>\<open>else: raise\<close>.
\<close>

definition cell_nodes_text :: "int \<Rightarrow> error + int \<Rightarrow> int list \<Rightarrow> error + string" where
  "cell_nodes_text ct tn nodes =
     (if ct = VTK_QUADRATIC_TETRA then
        ebind tn (\<lambda>t.
          if t = 187 then
            (if length nodes = 10
             then Inr (concat (map (pct_d 8) (take 8 nodes)) @ nl
                       @ concat (map (pct_d 8) (drop 8 nodes)) @ nl)
             else Inl TypeError)
          else ebind (py_take nodes quadratic_tetra_slots) (\<lambda>w.
                 two_lines (take 8 w) (drop 8 w)))
      else if ct = VTK_TETRA then
        ebind (py_take nodes tetra_slots) one_line
      else if ct = VTK_WEDGE then
        ebind (py_take nodes wedge_slots) one_line
      else if ct = VTK_QUADRATIC_WEDGE then
        ebind (py_take nodes quadratic_wedge_slots) (\<lambda>w. two_lines (take 8 w) (drop 8 w))
      else if ct = VTK_QUADRATIC_PYRAMID then
        ebind (py_take nodes quadratic_pyramid_slots) (\<lambda>w. two_lines (take 8 w) (drop 8 w))
      else if ct = VTK_PYRAMID then
        ebind (py_take nodes pyramid_slots) (\<lambda>w. one_line (py_slice w 0 8))
      else if ct = VTK_HEXAHEDRON then
        one_line (py_slice nodes 0 8)
      else if ct = VTK_QUADRATIC_HEXAHEDRON then
        two_lines (py_slice nodes 0 8) (py_slice nodes 8 (int (length nodes)))
      else Inl (Invalid_write_cell_type ct))"

text \<open>One pass of the loop over the cells: the text of the element line of cell \<open>i\<close>.\<close>

definition eblock_line ::
  "'p grid \<Rightarrow> int list \<Rightarrow> int list \<Rightarrow> int list \<Rightarrow> int list \<Rightarrow> int list \<Rightarrow> int list \<Rightarrow> int list
     \<Rightarrow> nat \<Rightarrow> error + string" where
  "eblock_line g nodenum mtype etype rcon elem_nnodes typenum enum i =
     ebind (py_get (offset g) (int i)) (\<lambda>c.
     ebind (py_get (cells g) c) (\<lambda>nnode.
     ebind (py_take nodenum (py_slice (cells g) (c + 1) (c + 1 + nnode))) (\<lambda>nodes.
     ebind (py_get mtype (int i)) (\<lambda>m.
     ebind (py_get etype (int i)) (\<lambda>e.
     ebind (py_get rcon (int i)) (\<lambda>r.
     ebind (py_get elem_nnodes (int i)) (\<lambda>nn.
     ebind (py_get enum (int i)) (\<lambda>en.
       let line = concat (map (pct_d 8) [m, e, r, 1, 0, 0, 0, 0, nn, 0, en]) in
       ebind (cell_nodes_text (celltypes g ! i) (py_get typenum (int i)) nodes) (\<lambda>s.
         Inr (line @ s))))))))))"

text \<open>The EBLOCK header and its format line; \<^verbatim>\<open>enum[-1]\<close> raises on a grid without cells.\<close>

definition eblock_header :: "int list \<Rightarrow> nat \<Rightarrow> error + string" where
  "eblock_header enum ncells =
     ebind (py_get enum (- 1)) (\<lambda>last_enum.
       Inr (''EBLOCK,19,SOLID,'' @ pct_d 10 last_enum @ '','' @ pct_d 10 (int ncells) @ nl
            @ ''(19i8)'' @ nl))"

text \<open>
  The whole function: what it writes to the file, or the exception it raises. The value of
  the parameter \<^verbatim>\<open>nblock\<close> is never read.
\<close>

definition save_as_archive ::
  "(nat \<Rightarrow> nat \<Rightarrow> int) \<Rightarrow> 'p grid \<Rightarrow> options \<Rightarrow> error + 'p piece list" where
  "save_as_archive junk g opts =
     ebind (node_numbers g opts) (\<lambda>nodenum.
     ebind (elem_numbers g opts) (\<lambda>enum.
     let ncells = number_of_cells g;
         mtype = material_types g opts;
         rcon = real_constants g opts
     in
     ebind (element_types junk g opts) (\<lambda>(et_lines, etype, typenum).
     let header = ''/PREP7'' @ nl @ et_lines;
         elem_nnodes = nodes_per_element junk etype typenum
     in
     ebind (if truthy (PyFunction ''write_nblock'')
            then write_nblock nodenum (points g) None else Inr []) (\<lambda>node_block.
     ebind (eblock_header enum ncells) (\<lambda>h.
     ebind (emap (eblock_line g nodenum mtype etype rcon elem_nnodes typenum enum) [0..<ncells])
       (\<lambda>lines.
         Inr ([Text header] @ node_block @ [Text h] @ map Text lines
              @ [Text (''      -1'' @ nl)])))))))"


section \<open>\<^verbatim>\<open>raw_to_grid\<close>: missing midside nodes\<close>

text \<open>
  A row of three floats is a value of the type \<open>'r\<close>. \<^verbatim>\<open>unique_rows\<close> views each row as
  one opaque item of raw bytes and hands the items to \<^verbatim>\<open>np.unique\<close>, which sorts and
  compares them as such: two rows are the same point exactly when they are the same value
  of \<open>'r\<close>, and the order of \<open>'r\<close> stands for the order of the byte strings. The result is
  the distinct rows in ascending order, the index of the first occurrence of each, and for
  every input row the index of its value among the distinct rows.
\<close>

definition unique_rows :: "'r::linorder list \<Rightarrow> 'r list \<times> nat list \<times> nat list" where
  "unique_rows a =
     (let u = np_unique a;
          idx = unique_index a;
          idx2 = map (\<lambda>row. first_index row u) a
      in (map (\<lambda>i. a ! i) idx, idx, idx2))"

text \<open>
  The raw archive data read here: the node table, one pair of position row
  (\<^verbatim>\<open>raw['nodes'][:, :3]\<close>) and angle row (\<^verbatim>\<open>raw['nodes'][:, 3:]\<close>) per node, and the node
  numbers \<^verbatim>\<open>raw['nnum']\<close>.
\<close>

record 'r raw =
  raw_nodes :: "('r \<times> 'r) list"
  raw_nnum :: "int list"

text \<open>
  The arrays returned by \<^verbatim>\<open>_parser.parse\<close> that this part reads. The parser is a compiled
  extension outside the sources; its result is an input of the model.
\<close>

record parsed =
  parsed_cells :: "int list"
  parsed_offset :: "int list"
  parsed_cell_type :: "int list"
  parsed_numref :: "int list"

text \<open>
  What the grid is built from and the two point arrays stored on it: the cells, the
  points, \<^verbatim>\<open>ansys_node_num\<close> and \<^verbatim>\<open>angles\<close>.
\<close>

record 'r mesh =
  mesh_cells :: "int list"
  mesh_points :: "'r list"
  mesh_node_num :: "int list"
  mesh_angles :: "'r list"

text \<open>
  The first half of the branch for missing midside nodes: every -1 in \<^verbatim>\<open>cells\<close> receives
  a provisional index counted up from \<^verbatim>\<open>numref.max() + 1\<close>, the point table is extended by
  as many zero rows, and \<^verbatim>\<open>_relaxmidside.reset_midside\<close> writes the midside positions into
  a copy of it. That routine is a compiled extension outside the sources and a parameter
  here; it returns the array it has updated. The result is the renumbered cells and
  \<^verbatim>\<open>new_nodes\<close>, the rows after the original nodes: one candidate per -1, in order.
\<close>

definition provisional_midside ::
  "(int list \<Rightarrow> int list \<Rightarrow> int list \<Rightarrow> 'r list \<Rightarrow> 'r list) \<Rightarrow> 'r::{linorder,zero} raw \<Rightarrow> parsed
     \<Rightarrow> int list \<times> 'r list" where
  "provisional_midside reset_midside raw p =
     (let cells = parsed_cells p;
          mask = eq_mask cells (- 1);
          nextra = count_true mask;
          maxnum = Max (set (parsed_numref p)) + 1;
          cells1 = assign_masked cells mask (arange maxnum (maxnum + int nextra));
          nnodes = length (raw_nodes raw);
          nodes = map fst (raw_nodes raw) @ replicate nextra 0;
          temp_nodes = reset_midside cells1 (parsed_cell_type p) (parsed_offset p) nodes
      in (cells1, drop nnodes temp_nodes))"

text \<open>
  The point part of \<^verbatim>\<open>raw_to_grid\<close>, from the check for missing midside nodes to the
  arrays handed to the grid. \<^verbatim>\<open>numref.max()\<close> raises ValueError on an empty array.
\<close>

definition raw_to_grid ::
  "(int list \<Rightarrow> int list \<Rightarrow> int list \<Rightarrow> 'r list \<Rightarrow> 'r list) \<Rightarrow> 'r::{linorder,zero} raw \<Rightarrow> parsed
     \<Rightarrow> bool \<Rightarrow> error + 'r mesh" where
  "raw_to_grid reset_midside raw p force_linear =
     (let cells = parsed_cells p in
      if force_linear \<or> - 1 \<notin> set cells then
        Inr \<lparr>mesh_cells = cells, mesh_points = map fst (raw_nodes raw),
             mesh_node_num = raw_nnum raw, mesh_angles = map snd (raw_nodes raw)\<rparr>
      else if parsed_numref p = [] then Inl ValueError
      else
        let mask = eq_mask cells (- 1);
            maxnum = Max (set (parsed_numref p)) + 1;
            (cells1, new_nodes) = provisional_midside reset_midside raw p;
            (unique_nodes, idxA, idxB) = unique_rows new_nodes;
            cells2 = assign_masked cells1 mask (map (\<lambda>j. int j + maxnum) idxB);
            nextra = length idxA
        in Inr \<lparr>mesh_cells = cells2,
                mesh_points = map fst (raw_nodes raw) @ unique_nodes,
                mesh_node_num = raw_nnum raw @ replicate nextra (- 1),
                mesh_angles = map snd (raw_nodes raw) @ replicate nextra 0\<rparr>)"

text \<open>An edge shared by two cells, both without its midside node: two nodes, two -1.\<close>

definition shared_edge_raw :: "int raw" where
  "shared_edge_raw = \<lparr>raw_nodes = [(0, 7), (2, 9)], raw_nnum = [1, 2]\<rparr>"

definition shared_edge_parsed :: parsed where
  "shared_edge_parsed =
     \<lparr>parsed_cells = [3, 0, 1, - 1, 3, 1, 0, - 1], parsed_offset = [0, 4],
      parsed_cell_type = [21, 21], parsed_numref = [- 1, 0, 1]\<rparr>"

text \<open>A stand-in for the midside routine on this input: every added row becomes 1.\<close>

definition shared_edge_reset :: "int list \<Rightarrow> int list \<Rightarrow> int list \<Rightarrow> int list \<Rightarrow> int list" where
  "shared_edge_reset cs ts os ns = take 2 ns @ map (\<lambda>x. 1) (drop 2 ns)"

section \<open>Example inputs\<close>

text \<open>The default keyword arguments, and the same with \<^verbatim>\<open>allow_missing=False\<close>.\<close>

definition default_options :: options where
  "default_options =
     \<lparr>mtype_start = 1, etype_start = 1, real_constant_start = 1, nblock = True,
      enum_start = 1, nnum_start = 1, include_etype_header = True, reset_etype = False,
      allow_missing = True\<rparr>"

definition strict_options :: options where
  "strict_options = default_options\<lparr>allow_missing := False\<rparr>"

text \<open>
  One linear tetrahedron on four points, with element number, element type number and
  element type set on the cell and no node numbers on the points.
\<close>

definition tet_grid :: "(int \<times> int \<times> int) grid" where
  "tet_grid =
     \<lparr>points = [(0, 0, 0), (1, 0, 0), (0, 1, 0), (0, 0, 1)],
      cells = [4, 0, 1, 2, 3], offset = [0], celltypes = [10],
      point_arrays = Map.empty,
      cell_arrays = [''ansys_elem_num'' \<mapsto> [1], ''ansys_etype'' \<mapsto> [1],
                     ''ansys_elem_type_num'' \<mapsto> [185]]\<rparr>"

text \<open>Two linear tetrahedra on five points; the first cell has element number 2, the second 1.\<close>

definition two_tet_grid :: "(int \<times> int \<times> int) grid" where
  "two_tet_grid =
     \<lparr>points = [(0, 0, 0), (1, 0, 0), (0, 1, 0), (0, 0, 1), (1, 1, 1)],
      cells = [4, 0, 1, 2, 3, 4, 1, 2, 3, 4], offset = [0, 5], celltypes = [10, 10],
      point_arrays = [''ansys_node_num'' \<mapsto> [1, 2, 3, 4, 5]],
      cell_arrays = [''ansys_elem_num'' \<mapsto> [2, 1], ''ansys_etype'' \<mapsto> [1, 1],
                     ''ansys_elem_type_num'' \<mapsto> [185, 185]]\<rparr>"

text \<open>One triangle (VTK cell type 5), a shape the writer has no branch for.\<close>

definition triangle_grid :: "(int \<times> int \<times> int) grid" where
  "triangle_grid =
     \<lparr>points = [(0, 0, 0), (1, 0, 0), (0, 1, 0)],
      cells = [3, 0, 1, 2], offset = [0], celltypes = [5],
      point_arrays = Map.empty, cell_arrays = Map.empty\<rparr>"


section \<open>Theorems\<close>

subsection \<open>The range codec\<close>

lemma np_at_py_get:
  "- int (length xs) \<le> i \<Longrightarrow> i < int (length xs) \<Longrightarrow> py_get xs i = Inr (np_at xs i)"
  by (auto simp: py_get_def np_at_def)











lemma np_at_last: "xs \<noteq> [] \<Longrightarrow> np_at xs (- 1) = last xs"
proof -
  assume ne: "xs \<noteq> []"
  then have "nat (int (length xs) + - 1) = length xs - 1"
    by (cases xs) auto
  then show ?thesis
    using ne by (simp add: np_at_def last_conv_nth)
qed








text \<open>
  C9. The tokens written for the ids 1,2,3,5,7,8,9 are 1,-3,5,7,-9 and the tokens written
  for the single id 4 are the single token 4, with no negative token. Both lists of ids
  are \<^verbatim>\<open>int64\<close> arrays to numpy.
\<close>

theorem cmblock_examples:
  "cmblock_toprint (Signed 64) [1, 2, 3, 5, 7, 8, 9] = Inr [1, - 3, 5, 7, - 9] \<and>
   cmblock_toprint (Signed 64) [4] = Inr [4]"
  by code_simp




text \<open>
  C6 (amended). \<^verbatim>\<open>write_cmblock\<close> has no check on the ids: the only argument it rejects
  is a \<^verbatim>\<open>comp_type\<close> other than ELEMENT or NODE, with ValueError. An input with at least
  two distinct ids and an accepted \<^verbatim>\<open>comp_type\<close> is encoded and written whatever the
  signs of its ids, in every dtype.
\<close>

theorem write_cmblock_accepts_any_sign:
  assumes "2 \<le> length (np_unique items)"
  shows "(upper comp_type \<notin> {''ELEMENT'', ''NODE''} \<longrightarrow>
            write_cmblock dt items comp_name comp_type w = Inl ValueError) \<and>
         (upper comp_type \<in> {''ELEMENT'', ''NODE''} \<longrightarrow>
            (\<exists>toks text. cmblock_toprint dt items = Inr toks \<and>
               write_cmblock dt items comp_name comp_type w = Inr text))"
proof -
  have "py_get (np_unique items) 0 = Inr (np_unique items ! 0)"
    using assms by (auto simp: py_get_def)
  then have "\<exists>toks. cmblock_toprint dt items = Inr toks"
    using assms by (simp add: cmblock_toprint_def ebind_def Let_def)
  then show ?thesis
    by (auto simp: write_cmblock_def ebind_def Let_def)
qed

theorem write_cmblock_accepts_any_sign_witness:
  "\<exists>toks text. cmblock_toprint (Signed 64) [- 3, 0, 5] = Inr toks \<and>
     write_cmblock (Signed 64) [- 3, 0, 5] ''group'' ''node'' 10 = Inr text"
proof -
  have a: "2 \<le> length (np_unique [- 3, 0, 5 :: int])"
    by code_simp
  have b: "upper ''node'' \<in> {''ELEMENT'', ''NODE''}"
    by code_simp
  show ?thesis
    using write_cmblock_accepts_any_sign [OF a, of "''node''" "Signed 64" "''group''" 10] b
    by blast
qed

text \<open>
  The ids -3, 0, 5 are written as the three tokens -3, 0, 5 of a CMBLOCK; nothing is
  rejected.
\<close>

theorem write_cmblock_rejects_counterexample:
  "write_cmblock (Signed 64) [- 3, 0, 5] ''group'' ''node'' 10 =
     Inr (join [CHR 0x0A]
       [''CMBLOCK,GROUP,NODE,       3  ! from pyansys'',
        ''(8i10)'',
        ''        -3         0         5'',
        ''''])"
  by code_simp

subsection \<open>The archive writer\<close>

lemma isl_ebind: "isl (ebind m f) = (case m of Inl e \<Rightarrow> True | Inr v \<Rightarrow> isl (f v))"
  by (cases m) (simp_all add: ebind_def)

lemma ebind_Inr_iff: "ebind m f = Inr y \<longleftrightarrow> (\<exists>v. m = Inr v \<and> f v = Inr y)"
  by (cases m) (auto simp: ebind_def)

lemma emap_raises: "x \<in> set xs \<Longrightarrow> isl (f x) \<Longrightarrow> isl (emap f xs)"
  by (induction xs) (auto simp: isl_ebind split: sum.splits)

lemma cell_nodes_text_unsupported:
  "ct \<notin> set supported_celltypes \<Longrightarrow>
   cell_nodes_text ct tn nodes = Inl (Invalid_write_cell_type ct)"
  by (simp add: cell_nodes_text_def supported_celltypes_def)

lemma eblock_line_unsupported:
  assumes "celltypes g ! i \<notin> set supported_celltypes"
  shows "isl (eblock_line g nodenum mtype etype rcon elem_nnodes typenum enum i)"
  unfolding eblock_line_def Let_def
  by (simp add: isl_ebind cell_nodes_text_unsupported [OF assms] split: sum.splits)

lemma save_as_archive_unsupported:
  assumes "i < number_of_cells g" "celltypes g ! i \<notin> set supported_celltypes"
  shows "isl (save_as_archive junk g opts)"
proof -
  have "i \<in> set [0..<number_of_cells g]"
    using assms(1) by simp
  then have E: "isl (emap (eblock_line g nodenum mtype etype rcon elem_nnodes typenum enum)
                    [0..<number_of_cells g])"
    for nodenum mtype etype rcon elem_nnodes typenum enum
    by (rule emap_raises) (rule eblock_line_unsupported [OF assms(2)])
  have E': "emap (eblock_line g nodenum mtype etype rcon elem_nnodes typenum enum)
                    [0..<number_of_cells g] \<noteq> Inr y"
    for nodenum mtype etype rcon elem_nnodes typenum enum y
    using E [of nodenum mtype etype rcon elem_nnodes typenum enum] by auto
  show ?thesis
    unfolding save_as_archive_def Let_def
    by (simp add: isl_ebind E' split: sum.splits prod.splits)
qed

lemma node_numbers_nblock: "node_numbers g (opts\<lparr>nblock := b\<rparr>) = node_numbers g opts"
  by (simp add: node_numbers_def Let_def cong: if_cong)

lemma elem_numbers_nblock: "elem_numbers g (opts\<lparr>nblock := b\<rparr>) = elem_numbers g opts"
  by (simp add: elem_numbers_def Let_def cong: if_cong)

lemma material_types_nblock:
  "material_types g (opts\<lparr>nblock := b\<rparr>) = material_types g opts"
  by (simp add: material_types_def Let_def cong: if_cong)

lemma real_constants_nblock:
  "real_constants g (opts\<lparr>nblock := b\<rparr>) = real_constants g opts"
  by (simp add: real_constants_def Let_def cong: if_cong)

lemma element_types_nblock:
  "element_types junk g (opts\<lparr>nblock := b\<rparr>) = element_types junk g opts"
  by (simp add: element_types_def Let_def cong: if_cong option.case_cong)

lemma save_as_archive_nblock:
  "save_as_archive junk g (opts\<lparr>nblock := b\<rparr>) = save_as_archive junk g opts"
  by (simp add: save_as_archive_def node_numbers_nblock elem_numbers_nblock
      material_types_nblock real_constants_nblock element_types_nblock)

lemma node_block_written:
  assumes "save_as_archive junk g opts = Inr out"
  shows "\<exists>nodenum blk hdr rest. node_numbers g opts = Inr nodenum \<and>
           write_nblock nodenum (points g) None = Inr blk \<and> out = Text hdr # blk @ rest"
  using assms unfolding save_as_archive_def Let_def
  by (simp add: ebind_Inr_iff split: prod.splits) blast


text \<open>
  C4, at a grid whose cells are not in ascending order of element number. The cells are
  numbered 2 and 1; the fourth field of the EBLOCK line is 1, the number of the last cell,
  and the largest element number is 2. The line \<^verbatim>\<open>(19i8)\<close> follows.
\<close>

theorem eblock_header_last_not_max:
  "cell_arrays two_tet_grid ''ansys_elem_num'' = Some [2, 1] \<and>
   Max (set [2, 1 :: int]) = 2 \<and>
   save_as_archive (\<lambda>a i. 0) two_tet_grid default_options =
     Inr [Text ''/PREP7\<newline>ET, 1, 185\<newline>'',
          Text ''/PREP7 \<newline>NBLOCK,6,SOLID,         5,         5\<newline>(3i8,6e20.13)\<newline>'',
          Node_row 1 (0, 0, 0), Node_row 2 (1, 0, 0), Node_row 3 (0, 1, 0),
          Node_row 4 (0, 0, 1), Node_row 5 (1, 1, 1),
          Text ''N,R5.3,LOC,       -1, \<newline>\<newline>'',
          Text ''EBLOCK,19,SOLID,         1,         2\<newline>(19i8)\<newline>'',
          Text ''       1       1       1       1       0       0       0       0       8       0       2       1       2       3       3       4       4       4       4\<newline>'',
          Text ''       2       1       2       1       0       0       0       0       8       0       1       2       3       4       4       5       5       5       5\<newline>'',
          Text ''      -1\<newline>'']"
  by code_simp

text \<open>
  C5, at two nodes given in descending order with angles. Node 2 comes with position
  (20, 20, 20) and angles (2, 2, 2), node 1 with (10, 10, 10) and (1, 1, 1). The rows are
  written in ascending order of node number, each with its own position, and with the
  angles in input order: node 1 is written with the angles of node 2.
\<close>

theorem write_nblock_angles_not_sorted:
  "write_nblock [2, 1] [(20 :: int, 20 :: int, 20 :: int), (10, 10, 10)]
       (Some [(2, 2, 2), (1, 1, 1)]) =
     Inr [Text ''/PREP7 \<newline>NBLOCK,6,SOLID,         2,         2\<newline>(3i8,6e20.13)\<newline>'',
          Node_row_angles 1 (10, 10, 10) (2, 2, 2),
          Node_row_angles 2 (20, 20, 20) (1, 1, 1),
          Text ''N,R5.3,LOC,       -1, \<newline>\<newline>'']"
  by code_simp

text \<open>
  C7, at a grid without the point array of node numbers and with
  \<^verbatim>\<open>allow_missing=False\<close>: nothing is raised, and the nodes are numbered 1 to 4.
\<close>

theorem strict_mode_numbers_nodes:
  "point_arrays tet_grid ''ansys_node_num'' = None \<and>
   \<not> allow_missing strict_options \<and>
   save_as_archive (\<lambda>a i. 0) tet_grid strict_options =
     Inr [Text ''/PREP7\<newline>ET, 1, 185\<newline>'',
          Text ''/PREP7 \<newline>NBLOCK,6,SOLID,         4,         4\<newline>(3i8,6e20.13)\<newline>'',
          Node_row 1 (0, 0, 0), Node_row 2 (1, 0, 0), Node_row 3 (0, 1, 0),
          Node_row 4 (0, 0, 1),
          Text ''N,R5.3,LOC,       -1, \<newline>\<newline>'',
          Text ''EBLOCK,19,SOLID,         1,         1\<newline>(19i8)\<newline>'',
          Text ''       1       1       1       1       0       0       0       0       8       0       1       1       2       3       3       4       4       4       4\<newline>'',
          Text ''      -1\<newline>'']"
  by code_simp

text \<open>
  C8. If some cell of the grid has a type outside the eight supported ones, the function
  ends with an exception, whatever the other arguments, and the branch of the loop taken
  for that cell is the one that raises \<^verbatim>\<open>Invalid write cell type\<close>.
\<close>

theorem unsupported_cell_raises:
  assumes "i < number_of_cells g" and "celltypes g ! i \<notin> set supported_celltypes"
  shows "(\<exists>e. save_as_archive junk g opts = Inl e) \<and>
         cell_nodes_text (celltypes g ! i) tn nodes =
           Inl (Invalid_write_cell_type (celltypes g ! i))"
proof -
  have "isl (save_as_archive junk g opts)"
    using assms by (rule save_as_archive_unsupported)
  then show ?thesis
    using cell_nodes_text_unsupported [OF assms(2)] by (auto simp: isl_def)
qed

theorem unsupported_cell_raises_witness:
  "(\<exists>e. save_as_archive (\<lambda>a i. 0) triangle_grid default_options = Inl e) \<and>
   cell_nodes_text (celltypes triangle_grid ! 0) (Inr 185) [1, 2, 3] =
     Inl (Invalid_write_cell_type (celltypes triangle_grid ! 0))"
proof -
  have a: "0 < number_of_cells triangle_grid"
    by code_simp
  have b: "celltypes triangle_grid ! 0 \<notin> set supported_celltypes"
    by code_simp
  show ?thesis
    using unsupported_cell_raises [OF a b] by blast
qed

text \<open>
  C10. The result is the same for both values of \<^verbatim>\<open>nblock\<close>, and whenever the function
  returns, the node block follows the header in what was written.
\<close>

theorem nblock_flag_has_no_effect:
  "save_as_archive junk g (opts\<lparr>nblock := True\<rparr>) =
     save_as_archive junk g (opts\<lparr>nblock := False\<rparr>) \<and>
   (\<forall>out. save_as_archive junk g (opts\<lparr>nblock := False\<rparr>) = Inr out \<longrightarrow>
      (\<exists>nodenum blk hdr rest. node_numbers g opts = Inr nodenum \<and>
         write_nblock nodenum (points g) None = Inr blk \<and> out = Text hdr # blk @ rest))"
  using node_block_written [of junk g opts] by (simp add: save_as_archive_nblock)

theorem nblock_flag_has_no_effect_witness:
  "\<exists>nodenum blk hdr rest. node_numbers tet_grid default_options = Inr nodenum \<and>
     write_nblock nodenum (points tet_grid) None = Inr blk \<and>
     save_as_archive (\<lambda>a i. 0) tet_grid (default_options\<lparr>nblock := False\<rparr>) =
       Inr (Text hdr # blk @ rest)"
proof -
  have "\<not> isl (save_as_archive (\<lambda>a i. 0) tet_grid (default_options\<lparr>nblock := False\<rparr>))"
    by code_simp
  then obtain out where
    "save_as_archive (\<lambda>a i. 0) tet_grid (default_options\<lparr>nblock := False\<rparr>) = Inr out"
    by (cases "save_as_archive (\<lambda>a i. 0) tet_grid (default_options\<lparr>nblock := False\<rparr>)") auto
  then show ?thesis
    using nblock_flag_has_no_effect [of "\<lambda>a i. 0" tet_grid default_options] by auto
qed

subsection \<open>Merging synthesized midside nodes\<close>

lemma length_assign_masked: "length (assign_masked xs ms vs) = length xs"
  by (induction xs ms vs rule: assign_masked.induct) auto

lemma count_true_Cons: "count_true (m # ms) = (if m then Suc (count_true ms) else count_true ms)"
  by (simp add: count_true_def)

lemma assign_masked_nth:
  "length ms = length xs \<Longrightarrow> length vs = count_true ms \<Longrightarrow> p < length xs \<Longrightarrow>
   assign_masked xs ms vs ! p = (if ms ! p then vs ! count_true (take p ms) else xs ! p)"
proof (induction xs ms vs arbitrary: p rule: assign_masked.induct)
  case (1 x xs ms v vs)
  then show ?case
    by (cases p) (auto simp: count_true_Cons count_true_def)
next
  case (2 x xs ms vs)
  then show ?case
    by (cases p) (auto simp: count_true_Cons count_true_def)
qed (auto simp: count_true_def)

lemma first_index_less: "v \<in> set xs \<Longrightarrow> first_index v xs < length xs"
  by (induction xs) auto

lemma nth_first_index: "v \<in> set xs \<Longrightarrow> xs ! first_index v xs = v"
  by (induction xs) auto

lemma set_np_unique: "set (np_unique xs) = set xs"
  by (simp add: np_unique_def)

lemma distinct_remdups_adj_sorted: "sorted xs \<Longrightarrow> distinct (remdups_adj xs)"
proof (induction xs rule: remdups_adj.induct)
  case (3 x y xs)
  show ?case
  proof (cases "x = y")
    case True
    then show ?thesis using 3 by simp
  next
    case False
    then have "x \<notin> set (y # xs)"
      using "3.prems" by auto
    then show ?thesis
      using 3 False by simp
  qed
qed simp_all

lemma distinct_np_unique: "distinct (np_unique xs)"
  by (simp add: np_unique_def distinct_remdups_adj_sorted)

lemma unique_rows_eq:
  "unique_rows a = (np_unique a, unique_index a, map (\<lambda>row. first_index row (np_unique a)) a)"
proof -
  have "a ! first_index v a = v" if "v \<in> set (np_unique a)" for v
    using that by (simp add: set_np_unique nth_first_index)
  then have "map (\<lambda>v. a ! first_index v a) (np_unique a) = np_unique a"
    by (simp add: map_idI)
  then have "map (\<lambda>i. a ! i) (unique_index a) = np_unique a"
    by (simp add: unique_index_def o_def)
  then show ?thesis
    by (simp add: unique_rows_def Let_def)
qed

lemma count_true_take_le: "count_true (take n ms) \<le> count_true ms"
proof -
  have "count_true ms = count_true (take n ms) + count_true (drop n ms)"
    unfolding count_true_def by (metis append_take_drop_id filter_append length_append)
  then show ?thesis by simp
qed

lemma length_arange: "a \<le> b \<Longrightarrow> length (arange a b) = nat (b - a)"
  by (simp add: arange_def)

text \<open>
  C2. When the cells hold a -1 and \<^verbatim>\<open>force_linear\<close> is false: the points appended after
  the original ones are pairwise distinct and are exactly the rows that occur among the
  synthesized candidates, so that candidates with the same row are one surviving point;
  every -1 of the cells is replaced by the index, in the final point table, of the point
  with the row of its own candidate, and every other entry of the cells is unchanged;
  the appended points have node number -1 and zero angles. The original points keep their
  place. Two assumptions stand for the compiled routines outside the sources:
  \<^verbatim>\<open>numref.max() + 1\<close> is the number of raw nodes (the source itself uses it as the index of
  the first appended row), and \<^verbatim>\<open>reset_midside\<close>, which works in place, leaves the number
  of rows as it is. Rows are the same when they are the same bytes.
\<close>

theorem midside_merge:
  fixes raw :: "'r::{linorder,zero} raw"
  assumes fl: "\<not> force_linear"
    and miss: "- 1 \<in> set (parsed_cells p)"
    and ne: "parsed_numref p \<noteq> []"
    and base: "Max (set (parsed_numref p)) + 1 = int (length (raw_nodes raw))"
    and inplace: "\<And>cs ts os ns. length (reset_midside cs ts os ns) = length ns"
  shows "\<exists>m. raw_to_grid reset_midside raw p force_linear = Inr m \<and>
    take (length (raw_nodes raw)) (mesh_points m) = map fst (raw_nodes raw) \<and>
    distinct (drop (length (raw_nodes raw)) (mesh_points m)) \<and>
    set (drop (length (raw_nodes raw)) (mesh_points m)) =
      set (snd (provisional_midside reset_midside raw p)) \<and>
    length (mesh_cells m) = length (parsed_cells p) \<and>
    (\<forall>i < length (parsed_cells p).
       if parsed_cells p ! i = - 1
       then length (raw_nodes raw) \<le> nat (mesh_cells m ! i) \<and>
            nat (mesh_cells m ! i) < length (mesh_points m) \<and>
            mesh_points m ! nat (mesh_cells m ! i) =
              snd (provisional_midside reset_midside raw p)
                ! count_true (take i (eq_mask (parsed_cells p) (- 1)))
       else mesh_cells m ! i = parsed_cells p ! i) \<and>
    mesh_node_num m = raw_nnum raw
       @ replicate (length (mesh_points m) - length (raw_nodes raw)) (- 1) \<and>
    mesh_angles m = map snd (raw_nodes raw)
       @ replicate (length (mesh_points m) - length (raw_nodes raw)) 0"
proof -
  define cells where "cells = parsed_cells p"
  define mask where "mask = eq_mask cells (- 1)"
  define nn where "nn = length (raw_nodes raw)"
  define maxnum where "maxnum = Max (set (parsed_numref p)) + 1"
  define cells1 where
    "cells1 = assign_masked cells mask (arange maxnum (maxnum + int (count_true mask)))"
  define new where
    "new = drop nn (reset_midside cells1 (parsed_cell_type p) (parsed_offset p)
                 (map fst (raw_nodes raw) @ replicate (count_true mask) 0))"
  define u where "u = np_unique new"
  define vals where "vals = map (\<lambda>j. int j + maxnum) (map (\<lambda>row. first_index row u) new)"
  define cells2 where "cells2 = assign_masked cells1 mask vals"
  define m where
    "m = \<lparr>mesh_cells = cells2, mesh_points = map fst (raw_nodes raw) @ u,
          mesh_node_num = raw_nnum raw @ replicate (length (unique_index new)) (- 1),
          mesh_angles = map snd (raw_nodes raw) @ replicate (length (unique_index new)) 0\<rparr>"
  have pm: "provisional_midside reset_midside raw p = (cells1, new)"
    by (simp add: provisional_midside_def Let_def new_def cells1_def mask_def cells_def
        maxnum_def nn_def)
  have ur: "unique_rows new = (u, unique_index new, map (\<lambda>row. first_index row u) new)"
    by (simp add: unique_rows_eq u_def)
  have res: "raw_to_grid reset_midside raw p force_linear = Inr m"
    using fl miss ne
    by (simp add: raw_to_grid_def Let_def pm ur m_def cells2_def vals_def
        mask_def [symmetric] cells_def [symmetric] maxnum_def [symmetric])
  have len_new: "length new = count_true mask"
    by (simp add: new_def inplace nn_def)
  have len_mask: "length mask = length cells"
    by (simp add: mask_def eq_mask_def)
  have len1: "length cells1 = length cells"
    by (simp add: cells1_def length_assign_masked)
  have len_vals: "length vals = count_true mask"
    by (simp add: vals_def len_new)
  have len_ui: "length (unique_index new) = length u"
    by (simp add: unique_index_def u_def)
  have cells: "if cells ! i = - 1
       then nn \<le> nat (cells2 ! i) \<and> nat (cells2 ! i) < nn + length u \<and>
            (map fst (raw_nodes raw) @ u) ! nat (cells2 ! i) = new ! count_true (take i mask)
       else cells2 ! i = cells ! i" if i: "i < length cells" for i
  proof (cases "cells ! i = - 1")
    case True
    define k where "k = count_true (take i mask)"
    have mi: "mask ! i"
      using True i by (simp add: mask_def eq_mask_def)
    have "k < count_true (take (Suc i) mask)"
      using mi i len_mask by (simp add: k_def take_Suc_conv_app_nth count_true_def)
    moreover have "count_true (take (Suc i) mask) \<le> count_true mask"
      by (rule count_true_take_le)
    ultimately have k: "k < length new"
      using len_new by simp
    then have mem: "new ! k \<in> set u"
      by (simp add: u_def set_np_unique)
    have "cells2 ! i = vals ! k"
      unfolding cells2_def k_def
      using assign_masked_nth [of mask cells1 vals i] len_mask len1 len_vals i mi by simp
    then have c2: "cells2 ! i = int (first_index (new ! k) u) + maxnum"
      using k by (simp add: vals_def)
    have "maxnum = int nn"
      using base by (simp add: maxnum_def nn_def)
    then have "nat (cells2 ! i) = nn + first_index (new ! k) u"
      using c2 by simp
    moreover have "length (map fst (raw_nodes raw)) = nn"
      by (simp add: nn_def)
    ultimately show ?thesis
      using True first_index_less [OF mem] nth_first_index [OF mem]
      by (simp add: nth_append k_def)
  next
    case False
    then have mi: "\<not> mask ! i"
      using i by (simp add: mask_def eq_mask_def)
    have "cells2 ! i = cells1 ! i"
      unfolding cells2_def
      using assign_masked_nth [of mask cells1 vals i] len_mask len1 len_vals i mi by simp
    also have "\<dots> = cells ! i"
      unfolding cells1_def
      using assign_masked_nth [of mask cells "arange maxnum (maxnum + int (count_true mask))" i]
        len_mask i mi by (simp add: length_arange)
    finally show ?thesis
      using False by simp
  qed
  have pts: "mesh_points m = map fst (raw_nodes raw) @ u" and mc: "mesh_cells m = cells2"
    and mn: "mesh_node_num m = raw_nnum raw @ replicate (length u) (- 1)"
    and ma: "mesh_angles m = map snd (raw_nodes raw) @ replicate (length u) 0"
    by (simp_all add: m_def len_ui)
  have "length (mesh_cells m) = length (parsed_cells p)"
    by (simp add: mc cells2_def length_assign_masked len1 cells_def [symmetric])
  moreover have "take (length (raw_nodes raw)) (mesh_points m) = map fst (raw_nodes raw)"
    "drop (length (raw_nodes raw)) (mesh_points m) = u"
    "length (mesh_points m) - length (raw_nodes raw) = length u"
    "length (mesh_points m) = nn + length u"
    by (simp_all add: pts nn_def)
  moreover have "distinct u" "set u = set new"
    by (simp_all add: u_def distinct_np_unique set_np_unique)
  ultimately show ?thesis
    using res cells mn ma
    by (intro exI [of _ m])
      (simp add: pm pts mc cells_def [symmetric] mask_def [symmetric] nn_def [symmetric])
qed

theorem midside_merge_witness:
  "\<exists>m. raw_to_grid shared_edge_reset shared_edge_raw shared_edge_parsed False = Inr m \<and>
     take (length (raw_nodes shared_edge_raw)) (mesh_points m) =
       map fst (raw_nodes shared_edge_raw) \<and>
     distinct (drop (length (raw_nodes shared_edge_raw)) (mesh_points m)) \<and>
     set (drop (length (raw_nodes shared_edge_raw)) (mesh_points m)) =
       set (snd (provisional_midside shared_edge_reset shared_edge_raw shared_edge_parsed)) \<and>
     mesh_node_num m = raw_nnum shared_edge_raw
       @ replicate (length (mesh_points m) - length (raw_nodes shared_edge_raw)) (- 1) \<and>
     mesh_angles m = map snd (raw_nodes shared_edge_raw)
       @ replicate (length (mesh_points m) - length (raw_nodes shared_edge_raw)) 0"
proof -
  have h1: "\<not> False"
    by simp
  have h2: "- 1 \<in> set (parsed_cells shared_edge_parsed)"
    by (simp add: shared_edge_parsed_def)
  have h3: "parsed_numref shared_edge_parsed \<noteq> []"
    by (simp add: shared_edge_parsed_def)
  have h4: "Max (set (parsed_numref shared_edge_parsed)) + 1 =
      int (length (raw_nodes shared_edge_raw))"
    by (simp add: shared_edge_parsed_def shared_edge_raw_def)
  have h5: "length (shared_edge_reset cs ts os ns) = length ns" for cs ts os ns
    by (simp add: shared_edge_reset_def)
  from midside_merge [where reset_midside = shared_edge_reset, OF h1 h2 h3 h4 h5]
  show ?thesis
    by blast
qed

text \<open>
  The example computed: both cells end with the index 2 of the one appended point.
\<close>

lemma shared_edge_result:
  "raw_to_grid shared_edge_reset shared_edge_raw shared_edge_parsed False =
     Inr \<lparr>mesh_cells = [3, 0, 1, 2, 3, 1, 0, 2], mesh_points = [0, 2, 1],
          mesh_node_num = [1, 2, - 1], mesh_angles = [7, 9, 0]\<rparr>"
  by code_simp

subsection \<open>Further properties of the writers\<close>

lemma py_take_in_range:
  "\<forall>k\<in>set ks. k < length xs \<Longrightarrow> py_take xs (map int ks) = Inr (map (\<lambda>k. xs ! k) ks)"
  by (induction ks) (simp_all add: py_get_def ebind_def)

lemma map_insort_key: "map f (insort_key f x ys) = insort (f x) (map f ys)"
  by (induction ys) auto

lemma map_sort_key: "map f (sort_key f xs) = sort (map f xs)"
  by (induction xs) (simp_all add: map_insort_key)

lemma map_np_argsort: "map (\<lambda>k. a ! k) (np_argsort a) = sort a"
  by (simp add: np_argsort_def map_sort_key map_nth)

lemma set_np_argsort: "set (np_argsort a) = {0..<length a}"
  by (simp add: np_argsort_def)

lemma distinct_np_argsort: "distinct (np_argsort a)"
  by (simp add: np_argsort_def)

text \<open>
  Without angles and with one position per node number, the node rows are written in
  ascending order of node number, once for each input index, each with the position given
  at that index and the node number as the float array holds it.
\<close>

lemma write_nblock_rows:
  assumes ne: "node_id \<noteq> []" and len: "length pos = length node_id"
  shows "\<exists>h f. write_nblock node_id pos None =
           Inr (Text h # map (\<lambda>k. Node_row (float64_int (node_id ! k)) (pos ! k))
                             (np_argsort node_id)
                @ [Text f]) \<and>
         sorted (map (\<lambda>k. node_id ! k) (np_argsort node_id)) \<and>
         distinct (np_argsort node_id) \<and>
         set (np_argsort node_id) = {0..<length node_id}"
proof -
  have "\<forall>k\<in>set (np_argsort node_id). k < length pos"
    using len by (simp add: set_np_argsort)
  then have tk: "py_take pos (map int (np_argsort node_id)) =
      Inr (map (\<lambda>k. pos ! k) (np_argsort node_id))"
    by (rule py_take_in_range)
  have z: "map2 (\<lambda>n p. Node_row (float64_int n) p)
        (map (\<lambda>k. node_id ! k) ks) (map (\<lambda>k. pos ! k) ks) =
      map (\<lambda>k. Node_row (float64_int (node_id ! k)) (pos ! k)) ks" for ks :: "nat list"
    by (induction ks) simp_all
  have "sorted (map (\<lambda>k. node_id ! k) (np_argsort node_id))"
    by (simp add: map_np_argsort)
  then show ?thesis
    using ne by (simp add: write_nblock_def Let_def tk ebind_def z distinct_np_argsort
        set_np_argsort)
qed

lemma nth_arange: "k < nat (b - a) \<Longrightarrow> arange a b ! k = a + int k"
  by (simp add: arange_def)

text \<open>
  Filling in missing numbers under \<^verbatim>\<open>allow_missing=True\<close>: the k-th entry equal to -1
  becomes \<open>start + k\<close>, where \<open>start\<close> is the larger of the maximum plus one and the
  configured start value; the other entries stay.
\<close>

lemma fill_missing_nth:
  assumes i: "i < length a"
  shows "assign_masked a (eq_mask a (- 1))
           (arange start (start + int (count_true (eq_mask a (- 1))))) ! i =
         (if a ! i = - 1 then start + int (count_true (take i (eq_mask a (- 1)))) else a ! i)"
proof -
  let ?mask = "eq_mask a (- 1)"
  let ?vals = "arange start (start + int (count_true ?mask))"
  have lm: "length ?mask = length a"
    by (simp add: eq_mask_def)
  have lv: "length ?vals = count_true ?mask"
    by (simp add: length_arange)
  have nth: "assign_masked a ?mask ?vals ! i =
      (if ?mask ! i then ?vals ! count_true (take i ?mask) else a ! i)"
    using assign_masked_nth [OF lm lv i] .
  show ?thesis
  proof (cases "a ! i = - 1")
    case True
    then have mi: "?mask ! i"
      using i by (simp add: eq_mask_def)
    have "count_true (take i ?mask) < count_true (take (Suc i) ?mask)"
      using mi i lm by (simp add: take_Suc_conv_app_nth count_true_def)
    also have "\<dots> \<le> count_true ?mask"
      by (rule count_true_take_le)
    finally have "?vals ! count_true (take i ?mask) = start + int (count_true (take i ?mask))"
      by (simp add: nth_arange)
    then show ?thesis
      using nth mi True by simp
  next
    case False
    then have "\<not> ?mask ! i"
      using i by (simp add: eq_mask_def)
    then show ?thesis
      using nth False by simp
  qed
qed

lemma node_numbers_fill:
  assumes "allow_missing opts" and "point_arrays g ''ansys_node_num'' = Some a"
    and "- 1 \<in> set a"
  shows "\<exists>a'. node_numbers g opts = Inr a' \<and> length a' = length a \<and>
           (\<forall>i<length a. a' ! i =
              (if a ! i = - 1
               then max (Max (set a) + 1) (nnum_start opts)
                    + int (count_true (take i (eq_mask a (- 1))))
               else a ! i))"
  using assms
  by (auto simp: node_numbers_def Let_def length_assign_masked fill_missing_nth max_def)

lemma elem_numbers_fill:
  assumes "allow_missing opts" and "cell_arrays g ''ansys_elem_num'' = Some a"
    and "- 1 \<in> set a"
  shows "\<exists>a'. elem_numbers g opts = Inr a' \<and> length a' = length a \<and>
           (\<forall>i<length a. a' ! i =
              (if a ! i = - 1
               then max (Max (set a) + 1) (enum_start opts)
                    + int (count_true (take i (eq_mask a (- 1))))
               else a ! i))"
  using assms
  by (auto simp: elem_numbers_def ebind_def Let_def length_assign_masked fill_missing_nth max_def)

text \<open>
  Under \<^verbatim>\<open>allow_missing=False\<close> a -1 among the node numbers, a -1 among the element
  numbers and an absent element number array each end the function with an exception.
\<close>

lemma strict_mode_raises:
  assumes "\<not> allow_missing opts"
  shows "point_arrays g ''ansys_node_num'' = Some a \<Longrightarrow> - 1 \<in> set a \<Longrightarrow>
           save_as_archive junk g opts = Inl Missing_node_numbers"
    and "cell_arrays g ''ansys_elem_num'' = None \<Longrightarrow> isl (save_as_archive junk g opts)"
    and "cell_arrays g ''ansys_elem_num'' = Some b \<Longrightarrow> - 1 \<in> set b \<Longrightarrow>
           isl (save_as_archive junk g opts)"
  using assms
  by (simp_all add: save_as_archive_def node_numbers_def elem_numbers_def ebind_def isl_ebind
      Let_def split: sum.splits)

text \<open>The EBLOCK header carries the number of the last cell, then the format line.\<close>

lemma eblock_header_text:
  "enum \<noteq> [] \<Longrightarrow>
   eblock_header enum ncells =
     Inr (''EBLOCK,19,SOLID,'' @ pct_d 10 (last enum) @ '','' @ pct_d 10 (int ncells) @ nl
          @ ''(19i8)'' @ nl)"
proof -
  assume ne: "enum \<noteq> []"
  then have "py_get enum (- 1) = Inr (np_at enum (- 1))"
    by (intro np_at_py_get) (cases enum; simp)+
  then show ?thesis
    using ne by (simp add: eblock_header_def np_at_last ebind_def)
qed

end
